theory Spec2Isabelle
  imports Main "HOL-Library.AList"
begin

section \<open>JavaScript values used by the simulation\<close>

text \<open>
  The program is \<^verbatim>\<open>src/script.js\<close>: the classes \<^verbatim>\<open>AuditLogger\<close>,
  \<^verbatim>\<open>VirtualFileSystem\<close> and \<^verbatim>\<open>Kernel\<close>. (The second copy of the file has the same
  classes, with a method \<^verbatim>\<open>deleteFile\<close> that no system call reaches and a clock reading
  \<^verbatim>\<open>uptime\<close> in the result of \<^verbatim>\<open>get_info\<close>.) A JavaScript string is modelled as a
  \<^typ>\<open>string\<close>, one \<^typ>\<open>char\<close> per code unit (code units 0 to 255). A value that is
  either a string or \<^verbatim>\<open>undefined\<close> (a missing argument, the content of a file written
  with a missing argument) is a \<open>jsstring\<close>. Numbers that the program only counts with
  (pids) are natural numbers; JavaScript computes with them exactly below \<open>2 ^ 53\<close>.
\<close>

datatype jsstring = Undefined | Str string

text \<open>
  A thrown value is an \<^verbatim>\<open>Error\<close> made by the program, or a \<^verbatim>\<open>TypeError\<close> raised by the
  engine when a property of \<^verbatim>\<open>undefined\<close> or \<^verbatim>\<open>null\<close> is read. Both carry a message; the
  wording of the engine's messages is V8's.
\<close>

datatype error = Error string | TypeError string

fun message :: "error \<Rightarrow> string" where
  "message (Error m) = m"
| "message (TypeError m) = m"

definition cannot_read :: "string \<Rightarrow> string \<Rightarrow> error" where
  "cannot_read v prop =
     TypeError (''Cannot read properties of '' @ v @ '' (reading '' @ [CHR 0x27] @ prop
                @ [CHR 0x27] @ '')'')"

text \<open>\<^verbatim>\<open>s.startsWith(t)\<close> and \<^verbatim>\<open>s.includes(t)\<close>.\<close>

definition startsWith :: "string \<Rightarrow> string \<Rightarrow> bool" where
  "startsWith s t = (take (length t) s = t)"

fun includes_str :: "string \<Rightarrow> string \<Rightarrow> bool" where
  "includes_str [] t = (t = [])"
| "includes_str (c # cs) t = (startsWith (c # cs) t \<or> includes_str cs t)"

text \<open>\<^verbatim>\<open>s.split(sep)\<close> for a separator of one character, and \<^verbatim>\<open>parts.join(sep)\<close>.\<close>

fun split :: "char \<Rightarrow> string \<Rightarrow> string list" where
  "split sep [] = [[]]"
| "split sep (c # cs) =
     (if c = sep then [] # split sep cs
      else (case split sep cs of
              [] \<Rightarrow> [[c]]
            | w # ws \<Rightarrow> (c # w) # ws))"

fun join :: "char \<Rightarrow> string list \<Rightarrow> string" where
  "join sep [] = []"
| "join sep [p] = p"
| "join sep (p # q # ps) = p @ sep # join sep (q # ps)"

text \<open>
  \<^verbatim>\<open>args[i]\<close> of the rest parameter \<^verbatim>\<open>...args\<close>. The arguments are strings: the user
  interface passes the text of its input fields.
\<close>

definition arg :: "string list \<Rightarrow> nat \<Rightarrow> jsstring" where
  "arg args i = (if i < length args then Str (args ! i) else Undefined)"

section \<open>AuditLogger\<close>

text \<open>
  An entry has the fields \<^verbatim>\<open>user\<close>, \<^verbatim>\<open>syscall\<close>, \<^verbatim>\<open>params\<close>, \<^verbatim>\<open>status\<close> and
  \<^verbatim>\<open>message\<close>. The fields \<^verbatim>\<open>id\<close> and \<^verbatim>\<open>timestamp\<close> are readings of the wall clock that
  no operation of the kernel reads back; they are left out. \<^verbatim>\<open>params\<close> is the JSON text
  of the logged object; the object itself stands for it here: \<^verbatim>\<open>{ username }\<close> for a
  login, \<^verbatim>\<open>{}\<close> for a logout, the argument array for a system call.
\<close>

datatype status = ALLOWED | DENIED | ERROR

datatype params = Params_username string | Params_empty | Params_args "string list"

record entry =
  e_user :: string
  e_syscall :: string
  e_params :: params
  e_status :: status
  e_message :: string

text \<open>
  \<^verbatim>\<open>log\<close> puts the new entry at the front (\<^verbatim>\<open>unshift\<close>). \<^verbatim>\<open>saveLogs\<close> writes the list to
  \<^verbatim>\<open>localStorage\<close> and swallows every failure, so it changes nothing the kernel sees.
\<close>

definition log ::
  "entry list \<Rightarrow> string \<Rightarrow> string \<Rightarrow> params \<Rightarrow> status \<Rightarrow> string \<Rightarrow> entry list" where
  "log logs user syscall ps st msg =
     \<lparr>e_user = user, e_syscall = syscall, e_params = ps, e_status = st, e_message = msg\<rparr>
     # logs"

definition clearLogs :: "entry list \<Rightarrow> entry list" where
  "clearLogs logs = []"

section \<open>VirtualFileSystem\<close>

text \<open>
  A node is \<^verbatim>\<open>{ type: 'file', content }\<close> or \<^verbatim>\<open>{ type: 'dir', children }\<close>. \<^verbatim>\<open>children\<close>
  is a plain object; its own properties are kept as an association list in the order of
  insertion. The object graph is a tree (every node object is referenced by one parent), so
  assigning to a node in place is rebuilding the tree along the path to it.
\<close>

datatype node = File jsstring | Dir "(string \<times> node) list"

text \<open>
  What an expression that is expected to give a node can evaluate to: \<^verbatim>\<open>null\<close> or
  \<^verbatim>\<open>undefined\<close> (both falsy), a node of the tree, or a member that the \<^verbatim>\<open>children\<close>
  object inherits from \<^verbatim>\<open>Object.prototype\<close> (a truthy value without a \<^verbatim>\<open>type\<close>).
\<close>

datatype ref = Null | Inherited | Node node

definition Object_prototype :: "string list" where
  "Object_prototype =
     [''constructor'', ''__defineGetter__'', ''__defineSetter__'', ''hasOwnProperty'',
      ''__lookupGetter__'', ''__lookupSetter__'', ''isPrototypeOf'',
      ''propertyIsEnumerable'', ''toString'', ''valueOf'', ''__proto__'',
      ''toLocaleString'']"

text \<open>\<^verbatim>\<open>children[part]\<close>: an own property first, then the prototype.\<close>

definition child :: "(string \<times> node) list \<Rightarrow> string \<Rightarrow> ref" where
  "child children part =
     (case map_of children part of
        Some n \<Rightarrow> Node n
      | None \<Rightarrow> if part \<in> set Object_prototype then Inherited else Null)"

text \<open>The tree that the constructor builds (the field \<^verbatim>\<open>root\<close>).\<close>

definition VirtualFileSystem :: node where
  "VirtualFileSystem = Dir
     [(''home'', Dir
        [(''admin'', Dir
           [(''secret.txt'', File (Str ''CONFIDENTIAL: Project Blue Book'')),
            (''notes.md'', File (Str (''# To Do'' @ [CHR 0x0A] @ ''1. Secure the kernel''
                                      @ [CHR 0x0A] @ ''2. Audit logs'')))]),
         (''guest'', Dir [])]),
      (''etc'', Dir
        [(''passwd'', File (Str ''admin:x:0:0:root:/home/admin:/bin/sh'')),
         (''config'', File (Str ''mode=secure''))]),
      (''var'', Dir
        [(''log'', Dir [])])]"

text \<open>\<^verbatim>\<open>path.split('/').filter(p => p.length > 0)\<close>.\<close>

definition parts :: "string \<Rightarrow> string list" where
  "parts path = filter (\<lambda>p. length p > 0) (split CHR ''/'' path)"

text \<open>The loop of \<^verbatim>\<open>resolvePath\<close>, from the current value over the remaining parts.\<close>

fun walk :: "ref \<Rightarrow> string list \<Rightarrow> ref" where
  "walk current [] = current"
| "walk current (part # ps) =
     (case current of
        Node (Dir children) \<Rightarrow>
          (case child children part of
             Null \<Rightarrow> Null
           | nxt \<Rightarrow> walk nxt ps)
      | _ \<Rightarrow> Null)"

definition resolvePath :: "node \<Rightarrow> string \<Rightarrow> ref" where
  "resolvePath root path =
     (if path = ''/'' then Node root else walk (Node root) (parts path))"

text \<open>\<^verbatim>\<open>getParentPath\<close> returns \<^verbatim>\<open>null\<close> (here \<open>None\<close>) for a path without parts.\<close>

definition getParentPath :: "string \<Rightarrow> string option" where
  "getParentPath path =
     (let ps = parts path in
      if length ps = 0 then None
      else let ps' = butlast ps in
           Some (if length ps' = 0 then ''/'' else ''/'' @ join CHR ''/'' ps'))"

text \<open>\<^verbatim>\<open>getName\<close>: \<^verbatim>\<open>parts[parts.length - 1]\<close> is \<^verbatim>\<open>undefined\<close> when there is no part.\<close>

definition getName :: "string \<Rightarrow> jsstring" where
  "getName path = (let ps = parts path in if ps = [] then Undefined else Str (last ps))"

definition fileExists :: "node \<Rightarrow> string \<Rightarrow> bool" where
  "fileExists root path = (resolvePath root path \<noteq> Null)"

text \<open>
  The tree in which the node reached from \<open>n\<close> over the own properties \<open>ps\<close> is replaced by
  \<open>f\<close> of it: what an assignment to a field of that node object does to the tree.
\<close>

fun assign :: "string list \<Rightarrow> (node \<Rightarrow> node) \<Rightarrow> node \<Rightarrow> node" where
  "assign [] f n = f n"
| "assign (part # ps) f (Dir children) =
     (case map_of children part of
        Some c \<Rightarrow> Dir (AList.update part (assign ps f c) children)
      | None \<Rightarrow> Dir children)"
| "assign (part # ps) f (File c) = File c"

text \<open>
  \<^verbatim>\<open>createFile\<close>. The default of \<^verbatim>\<open>content\<close> applies when \<^verbatim>\<open>undefined\<close> is passed.
  \<^verbatim>\<open>resolvePath(null)\<close> raises a TypeError at \<^verbatim>\<open>path.split\<close>. A property key that is
  \<^verbatim>\<open>undefined\<close> is the string \<^verbatim>\<open>'undefined'\<close>.
\<close>

definition createFile :: "node \<Rightarrow> string \<Rightarrow> jsstring \<Rightarrow> error + node" where
  "createFile root path content =
     (let content' = (case content of Undefined \<Rightarrow> [] | Str c \<Rightarrow> c);
          parentPath = getParentPath path;
          filename = (case getName path of Undefined \<Rightarrow> ''undefined'' | Str f \<Rightarrow> f)
      in case parentPath of
           None \<Rightarrow> Inl (cannot_read ''null'' ''split'')
         | Some pp \<Rightarrow>
             (case resolvePath root pp of
                Node (Dir children) \<Rightarrow>
                  (case child children filename of
                     Null \<Rightarrow>
                       Inr (assign (parts pp)
                              (\<lambda>_. Dir (children @ [(filename, File (Str content'))])) root)
                   | _ \<Rightarrow> Inl (Error ''File already exists''))
              | _ \<Rightarrow> Inl (Error ''Parent directory does not exist'')))"

definition readFile :: "node \<Rightarrow> string \<Rightarrow> error + jsstring" where
  "readFile root path =
     (case resolvePath root path of
        Null \<Rightarrow> Inl (Error ''File not found'')
      | Node (File content) \<Rightarrow> Inr content
      | _ \<Rightarrow> Inl (Error ''Is a directory''))"

definition writeFile :: "node \<Rightarrow> string \<Rightarrow> jsstring \<Rightarrow> error + node" where
  "writeFile root path content =
     (case resolvePath root path of
        Null \<Rightarrow> Inl (Error ''File not found'')
      | Node (File _) \<Rightarrow> Inr (assign (parts path) (\<lambda>_. File content) root)
      | _ \<Rightarrow> Inl (Error ''Is a directory''))"

text \<open>
  \<^verbatim>\<open>Object.keys\<close> lists the own keys that are array indices (canonical decimal numerals
  below \<open>2 ^ 32 - 1\<close>) in ascending order first, then the other keys in the order of
  insertion. \<open>Object_entries\<close> is the list of the own properties in that order.
\<close>

definition is_digit :: "char \<Rightarrow> bool" where
  "is_digit c = (48 \<le> (of_char c :: nat) \<and> (of_char c :: nat) \<le> 57)"

definition decimal :: "string \<Rightarrow> nat" where
  "decimal ds = foldl (\<lambda>a c. 10 * a + (of_char c - 48)) 0 ds"

definition is_array_index :: "string \<Rightarrow> bool" where
  "is_array_index s =
     (s \<noteq> [] \<and> list_all is_digit s \<and> (s = ''0'' \<or> hd s \<noteq> CHR ''0'')
      \<and> decimal s < 2 ^ 32 - 1)"

definition Object_entries :: "(string \<times> node) list \<Rightarrow> (string \<times> node) list" where
  "Object_entries children =
     sort_key (\<lambda>(key, c). decimal key) (filter (\<lambda>(key, c). is_array_index key) children)
     @ filter (\<lambda>(key, c). \<not> is_array_index key) children"

record dirent =
  d_name :: string
  d_type :: string
  d_size :: nat

text \<open>
  The callback of \<^verbatim>\<open>map\<close> in \<^verbatim>\<open>listDir\<close>. Reading \<^verbatim>\<open>content.length\<close> of a file whose
  content is \<^verbatim>\<open>undefined\<close> raises a TypeError.
\<close>

fun describe :: "string \<times> node \<Rightarrow> error + dirent" where
  "describe (key, File Undefined) = Inl (cannot_read ''undefined'' ''length'')"
| "describe (key, File (Str content)) =
     Inr \<lparr>d_name = key, d_type = ''file'', d_size = length content\<rparr>"
| "describe (key, Dir children) =
     Inr \<lparr>d_name = key, d_type = ''dir'', d_size = length children\<rparr>"

text \<open>Mapping a callback that may throw: the first exception ends the loop.\<close>

fun map_throw :: "('a \<Rightarrow> error + 'b) \<Rightarrow> 'a list \<Rightarrow> error + 'b list" where
  "map_throw f [] = Inr []"
| "map_throw f (x # xs) =
     (case f x of
        Inl e \<Rightarrow> Inl e
      | Inr y \<Rightarrow> (case map_throw f xs of Inl e \<Rightarrow> Inl e | Inr ys \<Rightarrow> Inr (y # ys)))"

definition listDir :: "node \<Rightarrow> string \<Rightarrow> error + dirent list" where
  "listDir root path =
     (case resolvePath root path of
        Null \<Rightarrow> Inl (Error ''Directory not found'')
      | Node (Dir children) \<Rightarrow> map_throw describe (Object_entries children)
      | _ \<Rightarrow> Inl (Error ''Not a directory''))"

section \<open>Kernel\<close>

datatype role = Root | User

record user =
  username :: string
  role :: role

record process =
  pid :: nat
  p_name :: jsstring
  p_owner :: string
  p_status :: string

record kernel =
  fs :: node
  logs :: "entry list"
  currentUser :: "user option"
  processes :: "process list"
  nextPid :: nat

text \<open>
  \<^verbatim>\<open>parseInt(string)\<close> without a radix: leading white space is dropped, then a sign, then
  \<^verbatim>\<open>0x\<close> or \<^verbatim>\<open>0X\<close> selects radix 16; the longest run of digits of the radix is read, and
  there being none gives \<^verbatim>\<open>NaN\<close> (here \<open>None\<close>). The white space among the code units
  0 to 255 is TAB, LF, VT, FF, CR, SP and NBSP. The result is an exact integer here;
  JavaScript rounds it to a double, which is the same number below \<open>2 ^ 53\<close> and not
  below \<open>2 ^ 53\<close> otherwise.
\<close>

definition is_white_space :: "char \<Rightarrow> bool" where
  "is_white_space c = ((of_char c :: nat) \<in> {9, 10, 11, 12, 13, 32, 160})"

definition digit_value :: "char \<Rightarrow> nat option" where
  "digit_value c =
     (let n = (of_char c :: nat) in
      if 48 \<le> n \<and> n \<le> 57 then Some (n - 48)
      else if 97 \<le> n \<and> n \<le> 122 then Some (n - 87)
      else if 65 \<le> n \<and> n \<le> 90 then Some (n - 55)
      else None)"

definition is_radix_digit :: "nat \<Rightarrow> char \<Rightarrow> bool" where
  "is_radix_digit r c = (case digit_value c of None \<Rightarrow> False | Some v \<Rightarrow> v < r)"

definition radix_value :: "nat \<Rightarrow> string \<Rightarrow> nat" where
  "radix_value r z =
     foldl (\<lambda>a c. r * a + (case digit_value c of None \<Rightarrow> 0 | Some v \<Rightarrow> v)) 0 z"

definition parseInt :: "string \<Rightarrow> int option" where
  "parseInt inputString =
     (let s = dropWhile is_white_space inputString;
          sign = (if s \<noteq> [] \<and> hd s = CHR ''-'' then - 1 else 1 :: int);
          s1 = (if s \<noteq> [] \<and> (hd s = CHR ''+'' \<or> hd s = CHR ''-'') then tl s else s);
          hex = (startsWith s1 ''0x'' \<or> startsWith s1 ''0X'');
          r = (if hex then 16 else 10 :: nat);
          s2 = (if hex then drop 2 s1 else s1);
          z = takeWhile (is_radix_digit r) s2
      in if z = [] then None else Some (sign * int (radix_value r z)))"

text \<open>\<^verbatim>\<open>ToString\<close> of an argument that may be missing.\<close>

fun ToString :: "jsstring \<Rightarrow> string" where
  "ToString Undefined = ''undefined''"
| "ToString (Str s) = s"

fun findIndex :: "('a \<Rightarrow> bool) \<Rightarrow> 'a list \<Rightarrow> nat option" where
  "findIndex P [] = None"
| "findIndex P (x # xs) =
     (if P x then Some 0 else (case findIndex P xs of None \<Rightarrow> None | Some i \<Rightarrow> Some (Suc i)))"

text \<open>\<^verbatim>\<open>xs.splice(idx, 1)\<close>.\<close>

definition splice1 :: "nat \<Rightarrow> 'a list \<Rightarrow> 'a list" where
  "splice1 idx xs = take idx xs @ drop (Suc idx) xs"

definition createProcess :: "kernel \<Rightarrow> jsstring \<Rightarrow> string \<Rightarrow> nat \<times> kernel" where
  "createProcess k name owner =
     (let p = nextPid k in
      (p, k\<lparr>processes := processes k
                @ [\<lparr>pid = p, p_name = name, p_owner = owner, p_status = ''running''\<rparr>],
             nextPid := nextPid k + 1\<rparr>))"

definition killProcess :: "kernel \<Rightarrow> jsstring \<Rightarrow> error + kernel" where
  "killProcess k p =
     (case findIndex (\<lambda>q. Some (int (pid q)) = parseInt (ToString p)) (processes k) of
        None \<Rightarrow> Inl (Error ''Process not found'')
      | Some idx \<Rightarrow> Inr (k\<lparr>processes := splice1 idx (processes k)\<rparr>))"

text \<open>
  The constructor. \<^verbatim>\<open>new AuditLogger()\<close> loads the entries that an earlier run left in
  \<^verbatim>\<open>localStorage\<close>; they are the parameter \<open>stored\<close>.
\<close>

definition Kernel :: "entry list \<Rightarrow> kernel" where
  "Kernel stored =
     snd (createProcess
            \<lparr>fs = VirtualFileSystem, logs = stored, currentUser = None, processes = [],
             nextPid = 100\<rparr>
            (Str ''init'') ''system'')"

definition login :: "kernel \<Rightarrow> string \<Rightarrow> string \<Rightarrow> bool \<times> kernel" where
  "login k name password =
     (if name = ''admin'' \<and> password = ''admin123'' then
        (True, k\<lparr>currentUser := Some \<lparr>username = ''admin'', role = Root\<rparr>,
                 logs := log (logs k) ''system'' ''login'' (Params_username name) ALLOWED
                           ''Auth successful''\<rparr>)
      else if name = ''user'' \<and> password = ''user123'' then
        (True, k\<lparr>currentUser := Some \<lparr>username = ''user'', role = User\<rparr>,
                 logs := log (logs k) ''system'' ''login'' (Params_username name) ALLOWED
                           ''Auth successful''\<rparr>)
      else
        (False, k\<lparr>logs := log (logs k) ''system'' ''login'' (Params_username name) DENIED
                            ''Invalid credentials''\<rparr>))"

definition logout :: "kernel \<Rightarrow> kernel" where
  "logout k =
     (case currentUser k of
        None \<Rightarrow> k
      | Some u \<Rightarrow> k\<lparr>logs := log (logs k) (username u) ''logout'' Params_empty ALLOWED [],
                    currentUser := None\<rparr>)"

definition checkAuth :: "kernel \<Rightarrow> error + unit" where
  "checkAuth k = (if currentUser k = None then Inl (Error ''Not logged in'') else Inr ())"

definition isAdmin :: "kernel \<Rightarrow> bool" where
  "isAdmin k = (case currentUser k of None \<Rightarrow> False | Some u \<Rightarrow> role u = Root)"

text \<open>
  What \<^verbatim>\<open>syscall\<close> returns: the object of \<^verbatim>\<open>get_info\<close> (its \<^verbatim>\<open>os\<close> and \<^verbatim>\<open>user\<close>, the
  latter \<^verbatim>\<open>currentUser\<close> as it is), a
  pid, \<^verbatim>\<open>true\<close>, a string or \<^verbatim>\<open>undefined\<close> (a file's content, the mocked descriptor), or
  the array of \<^verbatim>\<open>listDir\<close>.
\<close>

datatype result =
    Info string "user option"
  | Pid nat
  | JTrue
  | Text jsstring
  | Listing "dirent list"

text \<open>
  The \<^verbatim>\<open>switch\<close> statement of \<^verbatim>\<open>syscall\<close>, with \<open>usr\<close> the value of the constant
  \<^verbatim>\<open>user\<close>: the value of \<^verbatim>\<open>result\<close> and the kernel after it, or the exception.
  No case changes the kernel before it throws, so an exception leaves the kernel as it
  was. A path argument that is missing is \<^verbatim>\<open>undefined\<close>, and the first read of a
  property of it raises a TypeError.
\<close>

definition switch :: "kernel \<Rightarrow> string \<Rightarrow> string \<Rightarrow> string list \<Rightarrow> error + result \<times> kernel" where
  "switch k usr name args =
     (if name = ''get_info'' then Inr (Info ''SysCall Secure v1.0'' (currentUser k), k)
      else if name = ''create_process'' then
        (if \<not> isAdmin k then Inl (Error ''Permission denied: requires root'')
         else (case createProcess k (arg args 0) usr of (p, k') \<Rightarrow> Inr (Pid p, k')))
      else if name = ''kill_process'' then
        (if \<not> isAdmin k then Inl (Error ''Permission denied: requires root'')
         else (case killProcess k (arg args 0) of
                 Inl e \<Rightarrow> Inl e
               | Inr k' \<Rightarrow> Inr (JTrue, k')))
      else if name = ''open_file'' then
        (case arg args 0 of
           Undefined \<Rightarrow> Inl (cannot_read ''undefined'' ''split'')
         | Str path \<Rightarrow>
             if \<not> fileExists (fs k) path then Inl (Error ''File not found'')
             else Inr (Text (Str ''File Descriptor [Mocked]''), k))
      else if name = ''read_file'' then
        (case arg args 0 of
           Undefined \<Rightarrow> Inl (cannot_read ''undefined'' ''includes'')
         | Str path \<Rightarrow>
             if includes_str path ''/shadow'' then Inl (Error ''Permission denied'')
             else (case readFile (fs k) path of
                     Inl e \<Rightarrow> Inl e
                   | Inr content \<Rightarrow> Inr (Text content, k)))
      else if name = ''write_file'' then
        (case arg args 0 of
           Undefined \<Rightarrow>
             Inl (cannot_read ''undefined'' (if \<not> isAdmin k then ''startsWith'' else ''split''))
         | Str path \<Rightarrow>
             if \<not> isAdmin k \<and> startsWith path ''/etc'' then
               Inl (Error ''Permission denied: /etc is read-only'')
             else (case writeFile (fs k) path (arg args 1) of
                     Inl e \<Rightarrow> Inl e
                   | Inr root' \<Rightarrow> Inr (JTrue, k\<lparr>fs := root'\<rparr>)))
      else if name = ''create_file'' then
        (case arg args 0 of
           Undefined \<Rightarrow> Inl (cannot_read ''undefined'' ''split'')
         | Str path \<Rightarrow>
             (case createFile (fs k) path (arg args 1) of
                Inl e \<Rightarrow> Inl e
              | Inr root' \<Rightarrow> Inr (JTrue, k\<lparr>fs := root'\<rparr>)))
      else if name = ''list_dir'' then
        (case arg args 0 of
           Undefined \<Rightarrow> Inl (cannot_read ''undefined'' ''split'')
         | Str path \<Rightarrow>
             (case listDir (fs k) path of
                Inl e \<Rightarrow> Inl e
              | Inr entries \<Rightarrow> Inr (Listing entries, k)))
      else Inl (Error ''Unknown system call''))"

text \<open>
  The \<^verbatim>\<open>catch\<close> block: the entry is attributed to the current user, or to
  \<^verbatim>\<open>'anonymous'\<close>, and the exception is thrown on.
\<close>

definition catch_block :: "kernel \<Rightarrow> string \<Rightarrow> string list \<Rightarrow> error \<Rightarrow> (error + result) \<times> kernel" where
  "catch_block k name args err =
     (let usr = (case currentUser k of None \<Rightarrow> ''anonymous'' | Some u \<Rightarrow> username u);
          logStatus = (if includes_str (message err) ''Permission'' then DENIED else ERROR)
      in (Inl err,
          k\<lparr>logs := log (logs k) usr name (Params_args args) logStatus (message err)\<rparr>))"

text \<open>
  \<^verbatim>\<open>syscall\<close>: what the caller gets (the returned value, or the exception thrown on) and
  the kernel afterwards.
\<close>

definition syscall :: "kernel \<Rightarrow> string \<Rightarrow> string list \<Rightarrow> (error + result) \<times> kernel" where
  "syscall k name args =
     (case checkAuth k of
        Inl err \<Rightarrow> catch_block k name args err
      | Inr _ \<Rightarrow>
          (case currentUser k of
             None \<Rightarrow> catch_block k name args (cannot_read ''null'' ''username'')
           | Some u \<Rightarrow>
               (let usr = username u in
                case switch k usr name args of
                  Inl err \<Rightarrow> catch_block k name args err
                | Inr (res, k') \<Rightarrow>
                    (Inr res,
                     k'\<lparr>logs := log (logs k') usr name (Params_args args) ALLOWED
                                   ''Success''\<rparr>))))"

section \<open>Runs of the kernel\<close>

text \<open>
  The calls that the user interface makes on a kernel: \<^verbatim>\<open>kernel.login\<close>,
  \<^verbatim>\<open>kernel.logout\<close>, \<^verbatim>\<open>kernel.syscall\<close> and \<^verbatim>\<open>kernel.logger.clearLogs\<close>.
\<close>

datatype call = Login string string | Logout | Syscall string "string list" | ClearLogs

fun step :: "kernel \<Rightarrow> call \<Rightarrow> kernel" where
  "step k (Login name password) = snd (login k name password)"
| "step k Logout = logout k"
| "step k (Syscall name args) = snd (syscall k name args)"
| "step k ClearLogs = k\<lparr>logs := clearLogs (logs k)\<rparr>"

fun run :: "kernel \<Rightarrow> call list \<Rightarrow> kernel" where
  "run k [] = k"
| "run k (c # cs) = run (step k c) cs"

text \<open>The pid that a call hands to its caller, and the pids handed out along a run.\<close>

fun allocated :: "kernel \<Rightarrow> call \<Rightarrow> nat list" where
  "allocated k (Syscall name args) =
     (case fst (syscall k name args) of Inr (Pid p) \<Rightarrow> [p] | _ \<Rightarrow> [])"
| "allocated k c = []"

fun pids :: "kernel \<Rightarrow> call list \<Rightarrow> nat list" where
  "pids k [] = []"
| "pids k (c # cs) = allocated k c @ pids (step k c) cs"

text \<open>The exceptions that the \<^verbatim>\<open>switch\<close> statement and the functions it calls throw.\<close>

definition thrown :: "error list" where
  "thrown =
     [Error ''Permission denied: requires root'', Error ''Permission denied'',
      Error ''Permission denied: /etc is read-only'', Error ''Process not found'',
      Error ''File not found'', Error ''Is a directory'', Error ''Directory not found'',
      Error ''Not a directory'', Error ''File already exists'',
      Error ''Parent directory does not exist'', Error ''Unknown system call'',
      cannot_read ''null'' ''split'', cannot_read ''undefined'' ''split'',
      cannot_read ''undefined'' ''includes'', cannot_read ''undefined'' ''startsWith'',
      cannot_read ''undefined'' ''length'']"

text \<open>
  Kernels of concrete runs: a fresh kernel after the login of each account, and the
  root session after it has created the files \<^verbatim>\<open>/home/guest/myshadow\<close> and
  \<^verbatim>\<open>shadow\<close>. \<open>demo\<close> is a run that creates a process, kills it and creates another.
\<close>

definition session_admin :: kernel where
  "session_admin = snd (login (Kernel []) ''admin'' ''admin123'')"

definition session_user :: kernel where
  "session_user = snd (login (Kernel []) ''user'' ''user123'')"

definition shadow_created :: kernel where
  "shadow_created =
     snd (syscall
            (snd (syscall session_admin ''create_file'' [''/home/guest/myshadow'', ''secret'']))
            ''create_file'' [''shadow'', ''top secret''])"

definition demo :: "call list" where
  "demo = [Login ''admin'' ''admin123'', Syscall ''create_process'' [''a''],
           Syscall ''kill_process'' [''101''], Syscall ''create_process'' [''b'']]"

section \<open>Strings and paths\<close>

lemma split_nonempty: "split sep s \<noteq> []"
  by (induction s) (auto split: list.splits)

lemma split_append: "split sep (a @ sep # b) = split sep a @ split sep b"
proof (induction a)
  case Nil
  show ?case by simp
next
  case (Cons c a)
  obtain w ws where w: "split sep a = w # ws"
    using split_nonempty [of sep a] by (cases "split sep a") auto
  with Cons show ?case by simp
qed

lemma split_segment: "sep \<notin> set s \<Longrightarrow> split sep s = [s]"
  by (induction s) auto

lemma parts_append: "parts (a @ CHR ''/'' # b) = parts a @ parts b"
  by (simp add: parts_def split_append)

lemma parts_segment: "s \<noteq> [] \<Longrightarrow> CHR ''/'' \<notin> set s \<Longrightarrow> parts s = [s]"
  by (simp add: parts_def split_segment)

lemma parts_slash: "parts (CHR ''/'' # b) = parts b"
  using parts_append [of "[]" b] by (simp add: parts_def)

lemma split_no_sep: "w \<in> set (split sep s) \<Longrightarrow> sep \<notin> set w"
proof (induction s arbitrary: w)
  case Nil
  then show ?case by simp
next
  case (Cons c s)
  obtain v vs where v: "split sep s = v # vs"
    using split_nonempty [of sep s] by (cases "split sep s") auto
  with Cons show ?case by (auto split: if_splits)
qed

lemma parts_segments: "w \<in> set (parts path) \<Longrightarrow> w \<noteq> [] \<and> CHR ''/'' \<notin> set w"
  by (auto simp: parts_def dest: split_no_sep)

lemma parts_join:
  "\<forall>w \<in> set ps. w \<noteq> [] \<and> CHR ''/'' \<notin> set w \<Longrightarrow> parts (join CHR ''/'' ps) = ps"
proof (induction "CHR ''/''" ps rule: join.induct)
  case 1
  show ?case by (simp add: parts_def)
next
  case (2 p)
  then show ?case by (simp add: parts_segment)
next
  case (3 p q ps)
  then show ?case by (simp add: parts_append parts_segment)
qed

lemma getParentPath_parts:
  "getParentPath path = Some pp \<Longrightarrow> parts path \<noteq> [] \<and> parts pp = butlast (parts path)"
proof -
  assume a: "getParentPath path = Some pp"
  then have ne: "parts path \<noteq> []" by (auto simp: getParentPath_def Let_def split: if_splits)
  have "\<forall>w \<in> set (butlast (parts path)). w \<noteq> [] \<and> CHR ''/'' \<notin> set w"
    using parts_segments by (meson in_set_butlastD)
  then have "parts (join CHR ''/'' (butlast (parts path))) = butlast (parts path)"
    by (rule parts_join)
  with a ne show ?thesis
    by (auto simp: getParentPath_def Let_def parts_slash split: if_splits)
qed

lemma resolvePath_walk: "resolvePath root path = walk (Node root) (parts path)"
  by (simp add: resolvePath_def parts_def)

lemma walk_Null: "walk Null ps = Null"
  by (cases ps) auto

lemma walk_Inherited: "ps \<noteq> [] \<Longrightarrow> walk Inherited ps = Null"
  by (cases ps) auto

lemma walk_File: "ps \<noteq> [] \<Longrightarrow> walk (Node (File c)) ps = Null"
  by (cases ps) auto

lemma walk_append: "walk cur (ps @ qs) = walk (walk cur ps) qs"
proof (induction ps arbitrary: cur)
  case Nil
  show ?case by simp
next
  case (Cons p ps)
  show ?case
    by (auto simp: Cons walk_Null split: ref.splits node.splits)
qed

lemma walk_single:
  "walk cur [s] = (case cur of Node (Dir children) \<Rightarrow> child children s | _ \<Rightarrow> Null)"
  by (auto split: ref.splits node.splits)

lemma child_Node: "child children s = Node n \<longleftrightarrow> map_of children s = Some n"
  by (auto simp: child_def split: option.splits)

lemma child_update: "child (AList.update s n children) s = Node n"
  by (simp add: child_def update_conv')

lemma walk_assign:
  "walk (Node t) ps = Node n \<Longrightarrow> walk (Node (assign ps f t)) ps = Node (f n)"
proof (induction ps arbitrary: t)
  case Nil
  then show ?case by simp
next
  case (Cons p ps)
  from Cons.prems obtain children where t: "t = Dir children"
    by (cases t) (auto split: ref.splits)
  show ?case
  proof (cases "child children p")
    case Null
    with Cons.prems t show ?thesis by simp
  next
    case Inherited
    with Cons.prems t show ?thesis by (cases ps) auto
  next
    case (Node c)
    then have m: "map_of children p = Some c" by (simp add: child_Node)
    from Cons.prems t Node have "walk (Node c) ps = Node n" by simp
    then have "walk (Node (assign ps f c)) ps = Node (f n)" by (rule Cons.IH)
    with t m show ?thesis by (simp add: child_update)
  qed
qed

lemma writeFile_readFile:
  "resolvePath root path = Node (File old) \<Longrightarrow>
   writeFile root path content = Inr (assign (parts path) (\<lambda>_. File content) root)
   \<and> readFile (assign (parts path) (\<lambda>_. File content) root) path = Inr content"
  by (simp add: writeFile_def readFile_def resolvePath_walk walk_assign)

lemma createFile_readFile:
  assumes parent: "getParentPath path = Some pp" "resolvePath root pp = Node (Dir children)"
    and absent: "fileExists root path = False"
  shows "\<exists>root'. createFile root path (Str c) = Inr root' \<and> readFile root' path = Inr (Str c)"
proof -
  define filename where "filename = last (parts path)"
  from parent(1) have ne: "parts path \<noteq> []" and pp: "parts pp = butlast (parts path)"
    using getParentPath_parts by auto
  have path: "parts path = parts pp @ [filename]" using ne pp by (simp add: filename_def)
  have w: "walk (Node root) (parts pp) = Node (Dir children)"
    using parent(2) by (simp add: resolvePath_walk)
  have "walk (Node root) (parts path) = child children filename"
    by (auto simp: path walk_append w split: ref.splits)
  with absent have n: "child children filename = Null"
    by (simp add: fileExists_def resolvePath_walk)
  then have m: "map_of children filename = None"
    by (auto simp: child_def split: option.splits if_splits)
  define new where "new = Dir (children @ [(filename, File (Str c))])"
  define root' where "root' = assign (parts pp) (\<lambda>_. new) root"
  have cr: "createFile root path (Str c) = Inr root'"
    using parent n ne
    by (simp add: createFile_def getName_def Let_def root'_def new_def filename_def)
  have "walk (Node root') (parts pp) = Node new"
    unfolding root'_def using w by (rule walk_assign)
  moreover have "child (children @ [(filename, File (Str c))]) filename = Node (File (Str c))"
    by (simp add: child_def map_add_def m)
  ultimately have "walk (Node root') (parts path) = Node (File (Str c))"
    by (simp add: path walk_append new_def)
  then have "readFile root' path = Inr (Str c)"
    by (simp add: readFile_def resolvePath_walk)
  with cr show ?thesis by blast
qed

section \<open>Concrete kernels\<close>

lemma session_user_simps:
  "currentUser session_user = Some \<lparr>username = ''user'', role = User\<rparr>"
  "fs session_user = VirtualFileSystem"
  "map pid (processes session_user) = [100]"
  "nextPid session_user = 101"
  by (simp_all add: session_user_def login_def Kernel_def createProcess_def)

lemma session_admin_simps:
  "currentUser session_admin = Some \<lparr>username = ''admin'', role = Root\<rparr>"
  "fs session_admin = VirtualFileSystem"
  "map pid (processes session_admin) = [100]"
  "nextPid session_admin = 101"
  by (simp_all add: session_admin_def login_def Kernel_def createProcess_def)

lemma shadow_created_simps:
  "currentUser shadow_created = Some \<lparr>username = ''admin'', role = Root\<rparr>"
  "resolvePath (fs shadow_created) ''shadow'' = Node (File (Str ''top secret''))"
  "resolvePath (fs shadow_created) ''/shadow'' = Node (File (Str ''top secret''))"
  "resolvePath (fs shadow_created) ''/home/guest/myshadow'' = Node (File (Str ''secret''))"
  by (simp_all add: shadow_created_def syscall_def checkAuth_def switch_def arg_def
      session_admin_simps createFile_def getParentPath_def getName_def resolvePath_def parts_def
      VirtualFileSystem_def child_def Object_prototype_def log_def Let_def)

section \<open>The dispatcher\<close>

lemma log_length: "length (log l u s p st m) = Suc (length l)"
  by (simp add: log_def)

lemma switch_logs:
  "switch k usr name args = Inr (res, k') \<Longrightarrow> logs k' = logs k"
  unfolding switch_def
  by (auto simp: createProcess_def killProcess_def Let_def split: if_splits option.splits sum.splits jsstring.splits prod.splits)

lemma map_throw_describe_error:
  "map_throw describe xs = Inl e \<Longrightarrow> e = cannot_read ''undefined'' ''length''"
proof (induction xs)
  case Nil
  then show ?case by simp
next
  case (Cons x xs)
  obtain key n where x: "x = (key, n)" by (cases x)
  show ?case
  proof (cases n)
    case (File c)
    with Cons x show ?thesis by (cases c) (auto split: sum.splits)
  next
    case (Dir ch)
    with Cons x show ?thesis by (auto split: sum.splits)
  qed
qed

lemma readFile_error: "readFile t p = Inl e \<Longrightarrow> e \<in> set thrown"
  by (auto simp: readFile_def thrown_def split: ref.splits node.splits)

lemma writeFile_error: "writeFile t p c = Inl e \<Longrightarrow> e \<in> set thrown"
  by (auto simp: writeFile_def thrown_def split: ref.splits node.splits)

lemma createFile_error: "createFile t p c = Inl e \<Longrightarrow> e \<in> set thrown"
  by (auto simp: createFile_def thrown_def Let_def split: ref.splits node.splits option.splits)

lemma listDir_error: "listDir t p = Inl e \<Longrightarrow> e \<in> set thrown"
  by (auto simp: listDir_def thrown_def dest: map_throw_describe_error split: ref.splits node.splits)

lemma killProcess_error: "killProcess k p = Inl e \<Longrightarrow> e \<in> set thrown"
  by (auto simp: killProcess_def thrown_def split: option.splits)

lemma switch_error: "switch k usr name args = Inl e \<Longrightarrow> e \<in> set thrown"
  unfolding switch_def
  by (auto dest: readFile_error writeFile_error createFile_error listDir_error killProcess_error
      split: if_splits option.splits sum.splits jsstring.splits prod.splits)
   (simp_all add: thrown_def)

lemma thrown_status:
  "list_all (\<lambda>e. includes_str (message e) ''Permission''
       = (e \<in> {Error ''Permission denied: requires root'', Error ''Permission denied'',
                Error ''Permission denied: /etc is read-only''})) thrown"
  by (simp add: thrown_def cannot_read_def startsWith_def)


lemma thrown_classified:
  "e \<in> set thrown \<Longrightarrow>
   includes_str (message e) ''Permission''
     = (e \<in> {Error ''Permission denied: requires root'', Error ''Permission denied'',
              Error ''Permission denied: /etc is read-only''})"
  using thrown_status by (simp add: list_all_iff)

section \<open>Processes\<close>

lemma createProcess_eq:
  "createProcess k name owner =
     (nextPid k,
      k\<lparr>processes := processes k
            @ [\<lparr>pid = nextPid k, p_name = name, p_owner = owner, p_status = ''running''\<rparr>],
        nextPid := Suc (nextPid k)\<rparr>)"
  by (simp add: createProcess_def Let_def)

lemma switch_pids:
  "switch k usr name args = Inr (res, k') \<Longrightarrow>
     (res = Pid (nextPid k) \<and> nextPid k' = Suc (nextPid k)
        \<and> (\<exists>p. processes k' = processes k @ [p] \<and> pid p = nextPid k))
   \<or> ((\<forall>p. res \<noteq> Pid p) \<and> nextPid k' = nextPid k
        \<and> (processes k' = processes k \<or> (\<exists>i. processes k' = splice1 i (processes k))))"
  unfolding switch_def
  by (auto simp: createProcess_eq killProcess_def
      split: if_splits option.splits sum.splits jsstring.splits prod.splits)

lemma syscall_pids:
  "syscall k name args = (r, k') \<Longrightarrow>
     (r = Inr (Pid (nextPid k)) \<and> nextPid k' = Suc (nextPid k)
        \<and> (\<exists>p. processes k' = processes k @ [p] \<and> pid p = nextPid k))
   \<or> ((\<forall>p. r \<noteq> Inr (Pid p)) \<and> nextPid k' = nextPid k
        \<and> (processes k' = processes k \<or> (\<exists>i. processes k' = splice1 i (processes k))))"
  unfolding syscall_def catch_block_def
  by (auto simp: Let_def dest!: switch_pids split: sum.splits option.splits prod.splits)

lemma step_pids:
  "(allocated k c = [nextPid k] \<and> nextPid (step k c) = Suc (nextPid k)
        \<and> (\<exists>p. processes (step k c) = processes k @ [p] \<and> pid p = nextPid k))
   \<or> (allocated k c = [] \<and> nextPid (step k c) = nextPid k
        \<and> (processes (step k c) = processes k
            \<or> (\<exists>i. processes (step k c) = splice1 i (processes k))))"
proof (cases c)
  case (Login n p)
  then show ?thesis by (simp add: login_def)
next
  case Logout
  then show ?thesis by (simp add: logout_def split: option.splits)
next
  case (Syscall name args)
  obtain r k' where s: "syscall k name args = (r, k')" by (cases "syscall k name args")
  from syscall_pids [OF s] Syscall s show ?thesis
    by (auto split: sum.splits result.splits)
next
  case ClearLogs
  then show ?thesis by simp
qed

lemma pids_consecutive:
  "pids k cs = [nextPid k ..< nextPid k + length (pids k cs)]
   \<and> nextPid (run k cs) = nextPid k + length (pids k cs)"
proof (induction cs arbitrary: k)
  case Nil
  show ?case by simp
next
  case (Cons c cs)
  define m where "m = length (pids (step k c) cs)"
  note ih = Cons [of "step k c", folded m_def]
  have "(allocated k c = [nextPid k] \<and> nextPid (step k c) = Suc (nextPid k))
      \<or> (allocated k c = [] \<and> nextPid (step k c) = nextPid k)"
    using step_pids [of k c] by blast
  then show ?case
  proof (elim disjE conjE)
    assume a: "allocated k c = [nextPid k]" and n: "nextPid (step k c) = Suc (nextPid k)"
    have "[nextPid k ..< nextPid k + Suc m] = nextPid k # [Suc (nextPid k) ..< Suc (nextPid k) + m]"
      by (simp add: upt_conv_Cons)
    with ih a n show ?thesis by (simp add: m_def [symmetric] del: upt_Suc)
  next
    assume a: "allocated k c = []" and n: "nextPid (step k c) = nextPid k"
    with ih show ?thesis by (simp add: m_def [symmetric])
  qed
qed

lemma distinct_remove_nth: "distinct ys \<Longrightarrow> distinct (take i ys @ drop (Suc i) ys)"
proof -
  assume d: "distinct ys"
  then have "distinct (take i ys @ drop i ys)" by simp
  then have "set (take i ys) \<inter> set (drop i ys) = {}"
    by (simp only: distinct_append)
  moreover have "set (drop (Suc i) ys) \<subseteq> set (drop i ys)"
    by (rule set_drop_subset_set_drop) simp
  ultimately have "set (take i ys) \<inter> set (drop (Suc i) ys) = {}" by blast
  with d show ?thesis by simp
qed

lemma distinct_splice1: "distinct (map f xs) \<Longrightarrow> distinct (map f (splice1 i xs))"
  using distinct_remove_nth [of "map f xs" i] by (simp add: splice1_def take_map drop_map)

lemma set_splice1: "x \<in> set (splice1 i xs) \<Longrightarrow> x \<in> set xs"
  by (auto simp: splice1_def dest: in_set_takeD in_set_dropD)

lemma table_step:
  assumes "distinct (map pid (processes k))"
    and "\<forall>q \<in> set (processes k). 100 \<le> pid q \<and> pid q < nextPid k"
    and "100 \<le> nextPid k"
  shows "distinct (map pid (processes (step k c)))
         \<and> (\<forall>q \<in> set (processes (step k c)). 100 \<le> pid q \<and> pid q < nextPid (step k c))
         \<and> 100 \<le> nextPid (step k c)"
  using step_pids [of k c]
proof (elim disjE conjE exE)
  fix p
  assume "nextPid (step k c) = Suc (nextPid k)" "processes (step k c) = processes k @ [p]"
    "pid p = nextPid k"
  with assms show ?thesis by auto
next
  assume "nextPid (step k c) = nextPid k" "processes (step k c) = processes k"
  with assms show ?thesis by simp
next
  fix i
  assume "nextPid (step k c) = nextPid k" "processes (step k c) = splice1 i (processes k)"
  with assms show ?thesis by (auto simp: distinct_splice1 dest: set_splice1)
qed

lemma table_run:
  "distinct (map pid (processes k)) \<Longrightarrow>
   \<forall>q \<in> set (processes k). 100 \<le> pid q \<and> pid q < nextPid k \<Longrightarrow>
   100 \<le> nextPid k \<Longrightarrow>
   distinct (map pid (processes (run k cs)))
   \<and> (\<forall>q \<in> set (processes (run k cs)). 100 \<le> pid q \<and> pid q < nextPid (run k cs))
   \<and> 100 \<le> nextPid (run k cs)"
proof (induction cs arbitrary: k)
  case Nil
  then show ?case by simp
next
  case (Cons c cs)
  from table_step [OF Cons.prems, of c] Cons.IH [of "step k c"] show ?case by simp
qed

lemma Kernel_simps:
  "fs (Kernel stored) = VirtualFileSystem"
  "logs (Kernel stored) = stored"
  "currentUser (Kernel stored) = None"
  "processes (Kernel stored)
     = [\<lparr>pid = 100, p_name = Str ''init'', p_owner = ''system'', p_status = ''running''\<rparr>]"
  "nextPid (Kernel stored) = 101"
  by (simp_all add: Kernel_def createProcess_eq)

lemma digit_value_digit: "is_digit c \<Longrightarrow> digit_value c = Some (of_char c - 48)"
  by (simp add: is_digit_def digit_value_def Let_def)

lemma is_radix_digit_10: "is_radix_digit 10 c = is_digit c"
  by (auto simp: is_radix_digit_def is_digit_def digit_value_def Let_def)

lemma radix_value_decimal_aux:
  "list_all is_digit ds \<Longrightarrow>
   foldl (\<lambda>a c. 10 * a + (case digit_value c of None \<Rightarrow> 0 | Some v \<Rightarrow> v)) a ds
     = foldl (\<lambda>a c. 10 * a + (of_char c - 48)) a ds"
  by (induction ds arbitrary: a) (auto simp: digit_value_digit)

lemma radix_value_decimal: "list_all is_digit ds \<Longrightarrow> radix_value 10 ds = decimal ds"
  by (simp add: radix_value_def decimal_def radix_value_decimal_aux)

lemma digit_not_space: "is_digit c \<Longrightarrow> \<not> is_white_space c"
  by (auto simp: is_digit_def is_white_space_def)

lemma digit_not_sign: "is_digit c \<Longrightarrow> c \<noteq> CHR ''+'' \<and> c \<noteq> CHR ''-'' \<and> c \<noteq> CHR ''x'' \<and> c \<noteq> CHR ''X''"
  by (auto simp: is_digit_def)

lemma takeWhile_digits:
  "list_all is_digit ds \<Longrightarrow> rest = [] \<or> \<not> is_digit (hd rest) \<Longrightarrow>
   takeWhile is_digit (ds @ rest) = ds"
  by (cases rest) (auto simp: list_all_iff takeWhile_append2 [of ds is_digit])

lemma decimal_zero: "decimal ''0'' = 0"
  by (simp add: decimal_def)

lemma parseInt_decimal_prefix:
  assumes ds: "ds \<noteq> []" "list_all is_digit ds"
    and rest: "rest = [] \<or> \<not> is_digit (hd rest)"
    and pos: "0 < decimal ds"
  shows "parseInt (ds @ rest) = Some (int (decimal ds))"
proof -
  obtain d ds' where d: "ds = d # ds'" using ds(1) by (cases ds) auto
  with ds(2) have dd: "is_digit d" by simp
  have ws: "dropWhile is_white_space (ds @ rest) = ds @ rest"
    using d dd by (simp add: digit_not_space)
  have nohex: "\<not> startsWith (ds @ rest) ''0x'' \<and> \<not> startsWith (ds @ rest) ''0X''"
  proof (cases ds')
    case Nil
    show ?thesis
    proof (cases "d = CHR ''0''")
      case True
      with d Nil pos show ?thesis by (simp add: decimal_zero)
    next
      case False
      with d show ?thesis by (cases rest) (auto simp: startsWith_def)
    qed
  next
    case (Cons e es)
    with ds(2) d have "is_digit e" by simp
    then have "e \<noteq> CHR ''x'' \<and> e \<noteq> CHR ''X''" using digit_not_sign by blast
    with d Cons show ?thesis by (auto simp: startsWith_def)
  qed
  have tw: "takeWhile (is_radix_digit 10) (ds @ rest) = ds"
    using takeWhile_digits [OF ds(2) rest] by (simp add: is_radix_digit_10 [abs_def])
  have sg: "hd (ds @ rest) \<noteq> CHR ''+'' \<and> hd (ds @ rest) \<noteq> CHR ''-''"
    using d dd digit_not_sign by simp
  show ?thesis
    unfolding parseInt_def Let_def ws
    using sg nohex tw ds by (simp add: radix_value_decimal)
qed

lemma findIndex_splice1:
  "n \<in> f ` set xs \<Longrightarrow>
   \<exists>i. findIndex (\<lambda>q. f q = n) xs = Some i
     \<and> splice1 i xs = takeWhile (\<lambda>q. f q \<noteq> n) xs @ tl (dropWhile (\<lambda>q. f q \<noteq> n) xs)"
proof (induction xs)
  case Nil
  then show ?case by simp
next
  case (Cons x xs)
  show ?case
  proof (cases "f x = n")
    case True
    then show ?thesis by (simp add: splice1_def)
  next
    case False
    with Cons.prems have "n \<in> f ` set xs" by auto
    from Cons.IH [OF this] False show ?thesis by (auto simp: splice1_def)
  qed
qed

lemma startsWith_append: "startsWith s (t @ t') \<Longrightarrow> startsWith s t"
proof -
  assume "startsWith s (t @ t')"
  then have "take (length (t @ t')) s = t @ t'" by (simp add: startsWith_def)
  then have "take (length t) (take (length (t @ t')) s) = take (length t) (t @ t')"
    by (rule arg_cong)
  then show ?thesis by (simp add: startsWith_def)
qed

lemma startsWith_etc: "startsWith path ''/etc/'' \<Longrightarrow> startsWith path ''/etc''"
  using startsWith_append [of path "''/etc''" "''/''"] by simp

lemma resolve_passwd:
  "resolvePath VirtualFileSystem ''/etc/passwd''
     = Node (File (Str ''admin:x:0:0:root:/home/admin:/bin/sh''))"
  by (simp add: resolvePath_def parts_def VirtualFileSystem_def child_def)

text \<open>
  The guard of \<^verbatim>\<open>write_file\<close> for a path string that begins with \<^verbatim>\<open>/etc/\<close> and resolves
  to a file: a session that is not root gets \<^verbatim>\<open>'Permission denied: /etc is read-only'\<close>,
  and a root session replaces the content.
\<close>

lemma write_file_etc:
  assumes "currentUser k = Some u" and "startsWith path ''/etc/''"
    and "resolvePath (fs k) path = Node (File old)"
  shows "(role u \<noteq> Root \<longrightarrow>
            syscall k ''write_file'' (path # content # args) =
              (Inl (Error ''Permission denied: /etc is read-only''),
               k\<lparr>logs := \<lparr>e_user = username u, e_syscall = ''write_file'',
                           e_params = Params_args (path # content # args), e_status = DENIED,
                           e_message = ''Permission denied: /etc is read-only''\<rparr> # logs k\<rparr>))
       \<and> (role u = Root \<longrightarrow>
            syscall k ''write_file'' (path # content # args) =
              (Inr JTrue,
               k\<lparr>fs := assign (parts path) (\<lambda>_. File (Str content)) (fs k),
                 logs := \<lparr>e_user = username u, e_syscall = ''write_file'',
                           e_params = Params_args (path # content # args), e_status = ALLOWED,
                           e_message = ''Success''\<rparr> # logs k\<rparr>)
            \<and> readFile (assign (parts path) (\<lambda>_. File (Str content)) (fs k)) path
                = Inr (Str content))"
proof (intro conjI impI)
  assume "role u \<noteq> Root"
  with assms(1) startsWith_etc [OF assms(2)]
  show "syscall k ''write_file'' (path # content # args) =
              (Inl (Error ''Permission denied: /etc is read-only''),
               k\<lparr>logs := \<lparr>e_user = username u, e_syscall = ''write_file'',
                           e_params = Params_args (path # content # args), e_status = DENIED,
                           e_message = ''Permission denied: /etc is read-only''\<rparr> # logs k\<rparr>)"
    by (simp add: syscall_def checkAuth_def switch_def isAdmin_def arg_def catch_block_def log_def)
       (simp add: startsWith_def)
next
  assume "role u = Root"
  with assms(1) writeFile_readFile [OF assms(3), of "Str content"]
  show "syscall k ''write_file'' (path # content # args) =
              (Inr JTrue,
               k\<lparr>fs := assign (parts path) (\<lambda>_. File (Str content)) (fs k),
                 logs := \<lparr>e_user = username u, e_syscall = ''write_file'',
                           e_params = Params_args (path # content # args), e_status = ALLOWED,
                           e_message = ''Success''\<rparr> # logs k\<rparr>)"
    by (simp add: syscall_def checkAuth_def switch_def isAdmin_def arg_def log_def)
next
  from writeFile_readFile [OF assms(3), of "Str content"]
  show "readFile (assign (parts path) (\<lambda>_. File (Str content)) (fs k)) path = Inr (Str content)"
    by simp
qed

section \<open>The claims\<close>

text \<open>
  Claim C1. Whatever the name and the arguments, a call of \<^verbatim>\<open>syscall\<close> while no
  session is active throws the error \<^verbatim>\<open>'Not logged in'\<close>; the kernel is left as it was
  but for one new entry at the front of the log, with user \<^verbatim>\<open>'anonymous'\<close> and status
  \<^verbatim>\<open>ERROR\<close>.
\<close>

theorem syscall_not_logged_in:
  "currentUser k = None \<Longrightarrow>
   syscall k name args =
     (Inl (Error ''Not logged in''),
      k\<lparr>logs := \<lparr>e_user = ''anonymous'', e_syscall = name, e_params = Params_args args,
                  e_status = ERROR, e_message = ''Not logged in''\<rparr> # logs k\<rparr>)"
  by (simp add: syscall_def checkAuth_def catch_block_def log_def startsWith_def)

theorem syscall_not_logged_in_witness:
  "currentUser (Kernel []) = None \<and>
   syscall (Kernel []) ''read_file'' [''/etc/passwd''] =
     (Inl (Error ''Not logged in''),
      (Kernel [])\<lparr>logs := [\<lparr>e_user = ''anonymous'', e_syscall = ''read_file'',
                  e_params = Params_args [''/etc/passwd''],
                  e_status = ERROR, e_message = ''Not logged in''\<rparr>]\<rparr>)"
proof -
  have h: "currentUser (Kernel []) = None" by (simp add: Kernel_def createProcess_def)
  have l: "logs (Kernel []) = []" by (simp add: Kernel_def createProcess_def)
  show ?thesis using h l syscall_not_logged_in [OF h, of "''read_file''" "[''/etc/passwd'']"] by simp
qed

text \<open>
  Claim C2. When the \<^verbatim>\<open>switch\<close> statement throws under an active session, the dispatcher
  logs one entry for the session's user, with status \<^verbatim>\<open>DENIED\<close> exactly when the
  exception is one of the three permission refusals of the program and \<^verbatim>\<open>ERROR\<close> for
  every other exception, and throws the same exception on. In particular
  \<^verbatim>\<open>create_process\<close> and \<^verbatim>\<open>kill_process\<close> under a session that is not root throw
  \<^verbatim>\<open>'Permission denied: requires root'\<close> and are logged as \<^verbatim>\<open>DENIED\<close>.
\<close>

theorem syscall_failure:
  "currentUser k = Some u \<Longrightarrow>
   (switch k (username u) name args = Inl err \<longrightarrow>
      syscall k name args =
        (Inl err,
         k\<lparr>logs := \<lparr>e_user = username u, e_syscall = name, e_params = Params_args args,
                     e_status =
                       (if err \<in> {Error ''Permission denied: requires root'',
                                   Error ''Permission denied'',
                                   Error ''Permission denied: /etc is read-only''}
                        then DENIED else ERROR),
                     e_message = message err\<rparr> # logs k\<rparr>))
   \<and> (role u \<noteq> Root \<and> (name = ''create_process'' \<or> name = ''kill_process'') \<longrightarrow>
      syscall k name args =
        (Inl (Error ''Permission denied: requires root''),
         k\<lparr>logs := \<lparr>e_user = username u, e_syscall = name, e_params = Params_args args,
                     e_status = DENIED,
                     e_message = ''Permission denied: requires root''\<rparr> # logs k\<rparr>))"
proof (intro conjI impI)
  assume u: "currentUser k = Some u" and e: "switch k (username u) name args = Inl err"
  from e have "err \<in> set thrown" by (rule switch_error)
  from thrown_classified [OF this] u e show
    "syscall k name args =
        (Inl err,
         k\<lparr>logs := \<lparr>e_user = username u, e_syscall = name, e_params = Params_args args,
                     e_status =
                       (if err \<in> {Error ''Permission denied: requires root'',
                                   Error ''Permission denied'',
                                   Error ''Permission denied: /etc is read-only''}
                        then DENIED else ERROR),
                     e_message = message err\<rparr> # logs k\<rparr>)"
    by (simp add: syscall_def checkAuth_def catch_block_def log_def)
next
  assume u: "currentUser k = Some u"
    and n: "role u \<noteq> Root \<and> (name = ''create_process'' \<or> name = ''kill_process'')"
  then have "switch k (username u) name args = Inl (Error ''Permission denied: requires root'')"
    by (auto simp: switch_def isAdmin_def)
  with u show "syscall k name args =
        (Inl (Error ''Permission denied: requires root''),
         k\<lparr>logs := \<lparr>e_user = username u, e_syscall = name, e_params = Params_args args,
                     e_status = DENIED,
                     e_message = ''Permission denied: requires root''\<rparr> # logs k\<rparr>)"
    by (simp add: syscall_def checkAuth_def catch_block_def log_def startsWith_def)
qed

theorem syscall_failure_witness:
  "currentUser session_user = Some \<lparr>username = ''user'', role = User\<rparr>
   \<and> switch session_user ''user'' ''read_file'' [''/nowhere''] = Inl (Error ''File not found'')
   \<and> e_status (hd (logs (snd (syscall session_user ''read_file'' [''/nowhere''])))) = ERROR
   \<and> fst (syscall session_user ''read_file'' [''/nowhere'']) = Inl (Error ''File not found'')
   \<and> fst (syscall session_user ''kill_process'' [''100'']) = Inl (Error ''Permission denied: requires root'')
   \<and> e_status (hd (logs (snd (syscall session_user ''kill_process'' [''100''])))) = DENIED"
proof -
  let ?u = "\<lparr>username = ''user'', role = User\<rparr>"
  have u: "currentUser session_user = Some ?u" by (rule session_user_simps)
  have r: "resolvePath VirtualFileSystem ''/nowhere'' = Null"
    by (simp add: resolvePath_def parts_def VirtualFileSystem_def child_def Object_prototype_def)
  have s: "switch session_user ''user'' ''read_file'' [''/nowhere''] = Inl (Error ''File not found'')"
    by (simp add: switch_def arg_def startsWith_def readFile_def session_user_simps r)
  from syscall_failure [OF u, of "''read_file''" "[''/nowhere'']" "Error ''File not found''"]
       syscall_failure [OF u, of "''kill_process''" "[''100'']"] u s
  show ?thesis by simp
qed

text \<open>
  Claim C3, as amended. The guard of \<^verbatim>\<open>read_file\<close> looks for \<^verbatim>\<open>'/shadow'\<close>, with the
  separator: under every active session, root included, \<^verbatim>\<open>read_file\<close> on a path that
  contains \<^verbatim>\<open>'/shadow'\<close> throws \<^verbatim>\<open>'Permission denied'\<close>, returns no content and is
  logged as \<^verbatim>\<open>DENIED\<close>.
\<close>

theorem read_file_shadow:
  "currentUser k = Some u \<Longrightarrow> includes_str path ''/shadow'' \<Longrightarrow>
   syscall k ''read_file'' (path # rest) =
     (Inl (Error ''Permission denied''),
      k\<lparr>logs := \<lparr>e_user = username u, e_syscall = ''read_file'',
                  e_params = Params_args (path # rest), e_status = DENIED,
                  e_message = ''Permission denied''\<rparr> # logs k\<rparr>)"
  by (simp add: syscall_def checkAuth_def switch_def arg_def catch_block_def log_def startsWith_def)

theorem read_file_shadow_witness:
  "currentUser shadow_created = Some \<lparr>username = ''admin'', role = Root\<rparr>
   \<and> includes_str ''/shadow'' ''/shadow''
   \<and> resolvePath (fs shadow_created) ''/shadow'' = Node (File (Str ''top secret''))
   \<and> fst (syscall shadow_created ''read_file'' [''/shadow'']) = Inl (Error ''Permission denied'')"
proof -
  have u: "currentUser shadow_created = Some \<lparr>username = ''admin'', role = Root\<rparr>"
    by (rule shadow_created_simps)
  have i: "includes_str ''/shadow'' ''/shadow''" by (simp add: startsWith_def)
  from read_file_shadow [OF u i, of "[]"] u i shadow_created_simps(3)
  show ?thesis by simp
qed

text \<open>
  Claim C3 as stated fails: the paths \<^verbatim>\<open>/home/guest/myshadow\<close> and \<^verbatim>\<open>shadow\<close>
  contain \<^verbatim>\<open>shadow\<close> but not \<^verbatim>\<open>/shadow\<close>, and the root session reads the content of
  the files they name.
\<close>

theorem read_file_shadow_without_slash:
  "includes_str ''/home/guest/myshadow'' ''shadow'' \<and> includes_str ''shadow'' ''shadow''
   \<and> currentUser shadow_created = Some \<lparr>username = ''admin'', role = Root\<rparr>
   \<and> fst (syscall shadow_created ''read_file'' [''/home/guest/myshadow''])
       = Inr (Text (Str ''secret''))
   \<and> fst (syscall shadow_created ''read_file'' [''shadow'']) = Inr (Text (Str ''top secret''))"
  by (simp add: syscall_def checkAuth_def switch_def arg_def shadow_created_simps readFile_def
      startsWith_def)

text \<open>
  Claim C4 at the paths \<^verbatim>\<open>//etc/passwd\<close> and \<^verbatim>\<open>etc/passwd\<close> under the session of the
  standard account. Both resolve to the file \<^verbatim>\<open>passwd\<close> of the directory \<^verbatim>\<open>/etc\<close>, as
  \<^verbatim>\<open>/etc/passwd\<close> does. \<^verbatim>\<open>write_file\<close> on \<^verbatim>\<open>/etc/passwd\<close> throws
  \<^verbatim>\<open>'Permission denied: /etc is read-only'\<close>, but on the other two spellings it returns
  \<^verbatim>\<open>true\<close> and the file under \<^verbatim>\<open>/etc\<close> has the new content: the guard tests the
  string with \<^verbatim>\<open>startsWith('/etc')\<close>, and \<^verbatim>\<open>resolvePath\<close> drops empty parts. (For path
  strings that begin with \<^verbatim>\<open>/etc/\<close> the claim holds: \<open>write_file_etc\<close>.)
\<close>

theorem write_file_etc_bypass:
  "currentUser session_user = Some \<lparr>username = ''user'', role = User\<rparr>
   \<and> resolvePath (fs session_user) ''//etc/passwd''
       = Node (File (Str ''admin:x:0:0:root:/home/admin:/bin/sh''))
   \<and> resolvePath (fs session_user) ''etc/passwd''
       = Node (File (Str ''admin:x:0:0:root:/home/admin:/bin/sh''))
   \<and> resolvePath (fs session_user) ''/etc/passwd''
       = Node (File (Str ''admin:x:0:0:root:/home/admin:/bin/sh''))
   \<and> fst (syscall session_user ''write_file'' [''/etc/passwd'', ''new''])
       = Inl (Error ''Permission denied: /etc is read-only'')
   \<and> fst (syscall session_user ''write_file'' [''//etc/passwd'', ''new'']) = Inr JTrue
   \<and> readFile (fs (snd (syscall session_user ''write_file'' [''//etc/passwd'', ''new''])))
         ''/etc/passwd'' = Inr (Str ''new'')
   \<and> fst (syscall session_user ''write_file'' [''etc/passwd'', ''new'']) = Inr JTrue
   \<and> readFile (fs (snd (syscall session_user ''write_file'' [''etc/passwd'', ''new''])))
         ''/etc/passwd'' = Inr (Str ''new'')"
  by (simp add: syscall_def checkAuth_def switch_def isAdmin_def arg_def log_def catch_block_def
      session_user_simps startsWith_def writeFile_def readFile_def resolvePath_def parts_def
      VirtualFileSystem_def child_def)

text \<open>
  Claim C5. Every call of \<^verbatim>\<open>syscall\<close>, whatever its outcome, makes the log one entry
  longer, and \<^verbatim>\<open>clearLogs\<close> leaves a log of length zero.
\<close>

theorem syscall_log_length:
  "length (logs (snd (syscall k name args))) = length (logs k) + 1
   \<and> length (clearLogs (logs k)) = 0"
proof -
  have "length (logs (snd (syscall k name args))) = Suc (length (logs k))"
    unfolding syscall_def catch_block_def
    by (auto simp: log_length Let_def dest: switch_logs split: sum.splits option.splits prod.splits)
  thus ?thesis by (simp add: clearLogs_def)
qed

text \<open>
  Claim C6 at the path \<^verbatim>\<open>/home/guest/constructor\<close> of the initial tree: the parent
  directory exists and is empty, so no node is at the path, and yet \<^verbatim>\<open>createFile\<close>
  throws \<^verbatim>\<open>'File already exists'\<close>, because \<^verbatim>\<open>children['constructor']\<close> finds the member
  inherited from \<^verbatim>\<open>Object.prototype\<close>; reading the path back throws as well. (Where
  \<^verbatim>\<open>fileExists\<close> is false the round trip holds: \<open>createFile_readFile\<close>; after
  \<^verbatim>\<open>writeFile\<close> it holds: \<open>writeFile_readFile\<close>.)
\<close>

theorem createFile_inherited_name:
  "getParentPath ''/home/guest/constructor'' = Some ''/home/guest''
   \<and> resolvePath VirtualFileSystem ''/home/guest'' = Node (Dir [])
   \<and> createFile VirtualFileSystem ''/home/guest/constructor'' (Str ''x'')
       = Inl (Error ''File already exists'')
   \<and> readFile VirtualFileSystem ''/home/guest/constructor'' = Inl (Error ''Is a directory'')"
  by (simp add: createFile_def readFile_def getParentPath_def getName_def resolvePath_def parts_def
      VirtualFileSystem_def child_def Object_prototype_def)

text \<open>
  Claim C7. The constructor gives pid 100 to the bootstrap process, and along every run
  of calls on the kernel (logins, logouts, system calls, clearing the log) the pids handed
  out are 101, 102, ... in this order: strictly increasing from the base, each handed out
  once, whether or not \<^verbatim>\<open>kill_process\<close> has removed records in between. The pids in the
  table are distinct and are among those handed out. (Pids are exact integers here, as
  they are in JavaScript below \<open>2 ^ 53\<close>.)
\<close>

theorem pids_never_reused:
  "map pid (processes (Kernel stored)) = [100]
   \<and> 100 # pids (Kernel stored) cs = [100 ..< 101 + length (pids (Kernel stored) cs)]
   \<and> nextPid (run (Kernel stored) cs) = 101 + length (pids (Kernel stored) cs)
   \<and> distinct (map pid (processes (run (Kernel stored) cs)))
   \<and> pid ` set (processes (run (Kernel stored) cs))
       \<subseteq> set (100 # pids (Kernel stored) cs)"
proof -
  let ?k = "Kernel stored"
  note c = pids_consecutive [of ?k cs]
  have t: "distinct (map pid (processes (run ?k cs)))
     \<and> (\<forall>q \<in> set (processes (run ?k cs)). 100 \<le> pid q \<and> pid q < nextPid (run ?k cs))
     \<and> 100 \<le> nextPid (run ?k cs)"
    by (rule table_run) (simp_all add: Kernel_simps)
  have u: "100 # pids ?k cs = [100 ..< 101 + length (pids ?k cs)]"
    using c by (simp add: Kernel_simps upt_conv_Cons del: upt_Suc)
  have "set (100 # pids ?k cs) = {100 ..< nextPid (run ?k cs)}"
    using c by (subst u) (simp add: Kernel_simps)
  with t have "pid ` set (processes (run ?k cs)) \<subseteq> set (100 # pids ?k cs)"
    by auto
  with t u c show ?thesis by (simp add: Kernel_simps)
qed

lemma demo_pids: "pids (Kernel []) demo = [101, 102]"
  by (simp add: demo_def Kernel_def createProcess_eq login_def syscall_def checkAuth_def
      switch_def isAdmin_def arg_def log_def killProcess_def parseInt_def is_white_space_def
      startsWith_def is_radix_digit_def digit_value_def radix_value_def splice1_def Let_def)

theorem pids_never_reused_witness:
  "100 # pids (Kernel []) demo = [100, 101, 102]
   \<and> map pid (processes (run (Kernel []) demo)) = [100, 102]"
  using pids_never_reused [of "[]" demo]
  by (simp add: demo_def Kernel_def createProcess_eq login_def syscall_def checkAuth_def
      switch_def isAdmin_def arg_def log_def killProcess_def parseInt_def is_white_space_def
      startsWith_def is_radix_digit_def digit_value_def radix_value_def splice1_def Let_def)

text \<open>
  Claim C8, as amended. Every part of a path is looked up as the name of a child:
  \<^verbatim>\<open>p/s\<close> resolves to the child named \<open>s\<close> of the directory that \<open>p\<close> resolves to, for
  every name \<open>s\<close>, so \<^verbatim>\<open>.\<close> and \<^verbatim>\<open>..\<close> are names like any other. Empty parts are
  dropped, so a doubled separator resolves as a single one does.
\<close>

theorem resolvePath_segments:
  "(s \<noteq> [] \<and> CHR ''/'' \<notin> set s \<longrightarrow>
      resolvePath root (p @ ''/'' @ s)
        = (case resolvePath root p of Node (Dir children) \<Rightarrow> child children s | _ \<Rightarrow> Null))
   \<and> resolvePath root (p @ ''//'' @ q) = resolvePath root (p @ ''/'' @ q)"
  by (auto simp: resolvePath_walk parts_append parts_segment parts_slash walk_append
      split: ref.splits node.splits)

theorem resolvePath_segments_witness:
  "''..'' \<noteq> [] \<and> CHR ''/'' \<notin> set ''..''
   \<and> resolvePath VirtualFileSystem ''/home'' = Node (Dir
        [(''admin'', Dir
           [(''secret.txt'', File (Str ''CONFIDENTIAL: Project Blue Book'')),
            (''notes.md'', File (Str (''# To Do'' @ [CHR 0x0A] @ ''1. Secure the kernel''
                                      @ [CHR 0x0A] @ ''2. Audit logs'')))]),
         (''guest'', Dir [])])
   \<and> resolvePath VirtualFileSystem ''/home/..'' = Null
   \<and> resolvePath VirtualFileSystem ''/home/./admin'' = Null"
proof -
  have h: "resolvePath VirtualFileSystem ''/home'' = Node (Dir
        [(''admin'', Dir
           [(''secret.txt'', File (Str ''CONFIDENTIAL: Project Blue Book'')),
            (''notes.md'', File (Str (''# To Do'' @ [CHR 0x0A] @ ''1. Secure the kernel''
                                      @ [CHR 0x0A] @ ''2. Audit logs'')))]),
         (''guest'', Dir [])])"
    by (simp add: resolvePath_def parts_def VirtualFileSystem_def child_def)
  have d: "resolvePath VirtualFileSystem ''/home/./admin'' = Null"
    by (simp add: resolvePath_def parts_def VirtualFileSystem_def child_def Object_prototype_def)
  from resolvePath_segments [of "''..''" VirtualFileSystem "''/home''"] h d
  show ?thesis by (simp add: child_def Object_prototype_def)
qed

text \<open>
  Claim C8 as stated fails: \<^verbatim>\<open>/etc//passwd\<close> resolves to the same file as
  \<^verbatim>\<open>/etc/passwd\<close>.
\<close>

theorem duplicate_separators_collapsed:
  "resolvePath VirtualFileSystem ''/etc//passwd'' = resolvePath VirtualFileSystem ''/etc/passwd''
   \<and> resolvePath VirtualFileSystem ''/etc//passwd''
       = Node (File (Str ''admin:x:0:0:root:/home/admin:/bin/sh''))"
  by (simp add: resolvePath_def parts_def VirtualFileSystem_def child_def)

text \<open>
  Claim C9, as amended. The root pair gives a session with role root and the standard
  pair one with role user; each returns \<^verbatim>\<open>true\<close> and logs an \<^verbatim>\<open>ALLOWED\<close> entry of user
  \<^verbatim>\<open>'system'\<close>. Every other pair returns \<^verbatim>\<open>false\<close>, logs a \<^verbatim>\<open>DENIED\<close> entry and
  leaves the session as it was: no session when none was active.
\<close>

theorem login_cases:
  "login k ''admin'' ''admin123'' =
     (True, k\<lparr>currentUser := Some \<lparr>username = ''admin'', role = Root\<rparr>,
              logs := \<lparr>e_user = ''system'', e_syscall = ''login'',
                        e_params = Params_username ''admin'', e_status = ALLOWED,
                        e_message = ''Auth successful''\<rparr> # logs k\<rparr>)
   \<and> login k ''user'' ''user123'' =
     (True, k\<lparr>currentUser := Some \<lparr>username = ''user'', role = User\<rparr>,
              logs := \<lparr>e_user = ''system'', e_syscall = ''login'',
                        e_params = Params_username ''user'', e_status = ALLOWED,
                        e_message = ''Auth successful''\<rparr> # logs k\<rparr>)
   \<and> ((name, password) \<noteq> (''admin'', ''admin123'') \<and> (name, password) \<noteq> (''user'', ''user123'')
        \<longrightarrow> login k name password =
              (False, k\<lparr>logs := \<lparr>e_user = ''system'', e_syscall = ''login'',
                        e_params = Params_username name, e_status = DENIED,
                        e_message = ''Invalid credentials''\<rparr> # logs k\<rparr>))"
  by (simp add: login_def log_def)

theorem login_cases_witness:
  "(''mallory'', ''guess'') \<noteq> (''admin'', ''admin123'') \<and> (''mallory'', ''guess'') \<noteq> (''user'', ''user123'')
   \<and> login (Kernel []) ''mallory'' ''guess'' =
              (False, (Kernel [])\<lparr>logs := [\<lparr>e_user = ''system'', e_syscall = ''login'',
                        e_params = Params_username ''mallory'', e_status = DENIED,
                        e_message = ''Invalid credentials''\<rparr>]\<rparr>)
   \<and> currentUser (snd (login (Kernel []) ''mallory'' ''guess'')) = None
   \<and> currentUser (snd (login (Kernel []) ''admin'' ''admin123'')) = Some \<lparr>username = ''admin'', role = Root\<rparr>"
  using login_cases [of "Kernel []" "''mallory''" "''guess''"]
  by (simp add: Kernel_def createProcess_def)

text \<open>
  Claim C9 as stated fails: a failed login under the root session leaves that session
  active.
\<close>

theorem failed_login_keeps_session:
  "fst (login session_admin ''mallory'' ''guess'') = False
   \<and> currentUser (snd (login session_admin ''mallory'' ''guess''))
       = Some \<lparr>username = ''admin'', role = Root\<rparr>"
  by (simp add: session_admin_def login_def log_def)

text \<open>
  Claim C10. \<^verbatim>\<open>killProcess\<close> compares the pids with \<^verbatim>\<open>parseInt\<close> of its argument: for
  a string that begins with a run of decimal digits \<open>ds\<close>, followed by nothing or by a
  character that is not a digit, whose value is the pid of a process in the table, the
  first process with that pid is removed and \<^verbatim>\<open>true\<close> is returned; so does
  \<^verbatim>\<open>kill_process\<close> under a root session. (The value is positive, as every pid is; a
  string that begins with \<^verbatim>\<open>0x\<close> is read in radix 16.)
\<close>

theorem kill_process_integer_prefix:
  assumes "ds \<noteq> []" and "list_all is_digit ds" and "rest = [] \<or> \<not> is_digit (hd rest)"
    and "0 < decimal ds" and "decimal ds \<in> pid ` set (processes k)"
  shows "killProcess k (Str (ds @ rest)) =
           Inr (k\<lparr>processes := takeWhile (\<lambda>q. pid q \<noteq> decimal ds) (processes k)
                             @ tl (dropWhile (\<lambda>q. pid q \<noteq> decimal ds) (processes k))\<rparr>)
         \<and> (currentUser k = Some u \<and> role u = Root \<longrightarrow>
            syscall k ''kill_process'' ((ds @ rest) # args) =
              (Inr JTrue,
               k\<lparr>processes := takeWhile (\<lambda>q. pid q \<noteq> decimal ds) (processes k)
                             @ tl (dropWhile (\<lambda>q. pid q \<noteq> decimal ds) (processes k)),
                 logs := \<lparr>e_user = username u, e_syscall = ''kill_process'',
                           e_params = Params_args ((ds @ rest) # args), e_status = ALLOWED,
                           e_message = ''Success''\<rparr> # logs k\<rparr>))"
proof -
  have p: "parseInt (ds @ rest) = Some (int (decimal ds))"
    using assms(1-4) by (rule parseInt_decimal_prefix)
  obtain i where i: "findIndex (\<lambda>q. pid q = decimal ds) (processes k) = Some i"
    "splice1 i (processes k) = takeWhile (\<lambda>q. pid q \<noteq> decimal ds) (processes k)
                             @ tl (dropWhile (\<lambda>q. pid q \<noteq> decimal ds) (processes k))"
    using findIndex_splice1 [OF assms(5)] by blast
  have kp: "killProcess k (Str (ds @ rest)) = Inr (k\<lparr>processes := splice1 i (processes k)\<rparr>)"
    by (simp add: killProcess_def p i(1))
  then show ?thesis
    using i(2) by (simp add: syscall_def checkAuth_def switch_def isAdmin_def arg_def log_def)
qed

theorem kill_process_integer_prefix_witness:
  "list_all is_digit ''100'' \<and> \<not> is_digit (hd ''abc'') \<and> decimal ''100'' = 100
   \<and> map pid (processes session_admin) = [100]
   \<and> currentUser session_admin = Some \<lparr>username = ''admin'', role = Root\<rparr>
   \<and> killProcess session_admin (Str ''100abc'') = Inr (session_admin\<lparr>processes := []\<rparr>)
   \<and> fst (syscall session_admin ''kill_process'' [''100abc'']) = Inr JTrue
   \<and> processes (snd (syscall session_admin ''kill_process'' [''100abc''])) = []"
proof -
  have d: "list_all is_digit ''100''" by (simp add: is_digit_def)
  have r: "''abc'' = [] \<or> \<not> is_digit (hd ''abc'')" by (simp add: is_digit_def)
  have v: "decimal ''100'' = 100" by (simp add: decimal_def)
  have p: "processes session_admin
             = [\<lparr>pid = 100, p_name = Str ''init'', p_owner = ''system'', p_status = ''running''\<rparr>]"
    by (simp add: session_admin_def login_def Kernel_simps)
  have m: "decimal ''100'' \<in> pid ` set (processes session_admin)"
    by (simp add: p v)
  from kill_process_integer_prefix [OF _ d r _ m, of "\<lparr>username = ''admin'', role = Root\<rparr>" "[]"]
       d r v p session_admin_simps(1)
  show ?thesis by simp
qed

end
